theory Spec2Isabelle
  imports Main "HOL-Library.Char_ord" "HOL-Library.List_Lexorder" "HOL-Library.Multiset"
begin

section \<open>pgbouncer-userlist-generator: the user list, its publication and the reload marker\<close>

text \<open>
  The program (\<^verbatim>\<open>main.go\<close> with the reload trigger, and the older \<^verbatim>\<open>cmd/main.go\<close>
  without it) reads the roles of a PostgreSQL server, renders them as a pgbouncer
  \<^verbatim>\<open>userlist.txt\<close>, and replaces the live file when its MD5 differs. Both files share the
  query and the rendering word for word (up to the case of SQL keywords); the embedding
  follows the file with the trigger, which is the one that has every operation.

  Go strings are byte sequences and are compared bytewise, which is the order of
  \<^typ>\<open>string\<close> with the orders of \<^typ>\<open>char\<close> and of lists taken from the library.
\<close>

subsection \<open>Go library functions used by the program\<close>

definition dq :: char where
  "dq = CHR 0x22"

definition nl :: char where
  "nl = CHR 0x0A"

text \<open>\<^verbatim>\<open>strings.Join\<close>: the separator stands between elements only.\<close>

fun Join :: "string list \<Rightarrow> string \<Rightarrow> string" where
  "Join [] sep = []"
| "Join [x] sep = x"
| "Join (x # y # ys) sep = x @ sep @ Join (y # ys) sep"

text \<open>\<^verbatim>\<open>strings.Split(s, ",")\<close> for the one-byte separator of \<^verbatim>\<open>main\<close>: the result is never empty.\<close>

fun Split :: "string \<Rightarrow> char \<Rightarrow> string list" where
  "Split [] sep = [[]]"
| "Split (c # cs) sep =
     (if c = sep then [] # Split cs sep
      else (case Split cs sep of [] \<Rightarrow> [[c]] | x # xs \<Rightarrow> (c # x) # xs))"

text \<open>The verb \<^verbatim>\<open>%d\<close> of \<^verbatim>\<open>fmt.Sprintf\<close> on an \<^verbatim>\<open>int64\<close>: decimal digits, a minus sign when negative.\<close>

definition digit :: "nat \<Rightarrow> char" where
  "digit d = ''0123456789'' ! d"

fun showNat :: "nat \<Rightarrow> string" where
  "showNat n = (if n < 10 then [digit n] else showNat (n div 10) @ [digit (n mod 10)])"

declare showNat.simps [simp del]

definition showInt :: "int \<Rightarrow> string" where
  "showInt i = (if i < 0 then CHR ''-'' # showNat (nat (- i)) else showNat (nat i))"

text \<open>
  \<^verbatim>\<open>filepath.Clean\<close> returns a lexically shorter name of the same file. The file store
  below is keyed by the file a name denotes, names being taken in clean form, so on its
  keys \<^verbatim>\<open>Clean\<close> changes nothing.
\<close>

definition Clean :: "string \<Rightarrow> string" where
  "Clean name = name"

subsection \<open>The flags\<close>

record config =
  connectionString :: string
  filePath :: string
  excludeAccounts :: string
  reloadTriggerFile :: string
  reloadCommand :: string

definition default_config :: config where
  "default_config =
     \<lparr>connectionString = [],
      filePath = ''/etc/pgbouncer/userlist.txt'',
      excludeAccounts = ''postgres,replicator,monitor'',
      reloadTriggerFile = ''/tmp/pgbouncer-userlist-generator.trigger'',
      reloadCommand = ''systemctl reload pgbouncer''\<rparr>"

subsection \<open>The role catalogue and the query\<close>

text \<open>
  \<^verbatim>\<open>pg_authid\<close> has one row per role; \<^verbatim>\<open>rolpassword\<close> may be NULL. \<^verbatim>\<open>pg_auth_members\<close> has
  one row per direct membership of \<^verbatim>\<open>member\<close> in \<^verbatim>\<open>roleid\<close>. \<^verbatim>\<open>pg_roles\<close> is PostgreSQL's
  view of \<^verbatim>\<open>pg_authid\<close> with the same \<^verbatim>\<open>oid\<close> and \<^verbatim>\<open>rolname\<close>.
\<close>

record authid =
  oid :: nat
  rolname :: string
  rolpassword :: "string option"

record auth_member =
  roleid :: nat
  memberid :: nat

record database =
  pg_authid :: "authid list"
  pg_auth_members :: "auth_member list"

definition pg_roles :: "database \<Rightarrow> (nat \<times> string) list" where
  "pg_roles db = map (\<lambda>a. (oid a, rolname a)) (pg_authid db)"

text \<open>
  \<^verbatim>\<open>A left join B on c\<close>: every row of A with each matching row of B, or once with NULL
  when none matches; a NULL left side matches nothing.
\<close>

definition left_join :: "'a list \<Rightarrow> 'b list \<Rightarrow> ('a \<Rightarrow> 'b \<Rightarrow> bool) \<Rightarrow> ('a \<times> 'b option) list" where
  "left_join as bs on =
     concat (map (\<lambda>a. (case filter (on a) bs of [] \<Rightarrow> [(a, None)]
                                               | ms \<Rightarrow> map (\<lambda>b. (a, Some b)) ms)) as)"

text \<open>
  The joined rows \<^verbatim>\<open>(id, m, r)\<close> of
  \<^verbatim>\<open>pg_authid id left join pg_auth_members m on id.oid = m.member
     left join pg_roles r on m.roleid = r.oid\<close>.
\<close>

definition joined :: "database \<Rightarrow> ((authid \<times> auth_member option) \<times> (nat \<times> string) option) list" where
  "joined db =
     left_join
       (left_join (pg_authid db) (pg_auth_members db) (\<lambda>a m. oid a = memberid m))
       (pg_roles db)
       (\<lambda>(a, m) r. (case m of None \<Rightarrow> False | Some m' \<Rightarrow> roleid m' = fst r))"

text \<open>
  \<^verbatim>\<open>where (r.rolname is null or not(r.rolname::TEXT = any($1))) and id.rolpassword is not null\<close>,
  with \<^verbatim>\<open>$1\<close> the array of the excluded names (a Go \<^verbatim>\<open>[]string\<close> has no NULL element).
\<close>

definition where_clause :: "string list \<Rightarrow> ((authid \<times> auth_member option) \<times> (nat \<times> string) option) \<Rightarrow> bool" where
  "where_clause exclude row =
     (case row of ((a, m), r) \<Rightarrow>
        (case r of None \<Rightarrow> True | Some r' \<Rightarrow> \<not> (snd r' \<in> set exclude)) \<and> rolpassword a \<noteq> None)"

text \<open>\<^verbatim>\<open>select distinct id.rolname, id.rolpassword\<close>; the order of the rows is the server's.\<close>

definition query :: "database \<Rightarrow> string list \<Rightarrow> (string \<times> string option) list" where
  "query db exclude =
     remdups (map (\<lambda>((a, m), r). (rolname a, rolpassword a)) (filter (where_clause exclude) (joined db)))"

text \<open>The rows that reach the program as pairs of strings: the credential set.\<close>

definition credentials :: "database \<Rightarrow> string list \<Rightarrow> (string \<times> string) list" where
  "credentials db exclude =
     concat (map (\<lambda>(username, password). (case password of None \<Rightarrow> [] | Some s \<Rightarrow> [(username, s)]))
                 (query db exclude))"

text \<open>
  The catalogue of the exclusion example: A is in no group, B is a member of the group G,
  C is in no group, and G has no password.
\<close>

definition example_db :: database where
  "example_db =
     \<lparr>pg_authid =
        [\<lparr>oid = 1, rolname = ''A'', rolpassword = Some ''pwA''\<rparr>,
         \<lparr>oid = 2, rolname = ''B'', rolpassword = Some ''pwB''\<rparr>,
         \<lparr>oid = 3, rolname = ''C'', rolpassword = Some ''pwC''\<rparr>,
         \<lparr>oid = 4, rolname = ''G'', rolpassword = None\<rparr>],
      pg_auth_members = [\<lparr>roleid = 4, memberid = 2\<rparr>]\<rparr>"

subsection \<open>Rendering\<close>

text \<open>\<^verbatim>\<open>fmt.Sprintf(`"%s" "%s"`, username, password)\<close>.\<close>

definition Sprintf_line :: "string \<Rightarrow> string \<Rightarrow> string" where
  "Sprintf_line username password = [dq] @ username @ [dq] @ '' '' @ [dq] @ password @ [dq]"

text \<open>
  What \<^verbatim>\<open>generateUserList\<close> writes for the scanned rows: the lines, sorted by
  \<^verbatim>\<open>sort.Strings\<close>, joined by newlines, and a final newline.
\<close>

definition lines_of :: "(string \<times> string) list \<Rightarrow> string list" where
  "lines_of rows = map (\<lambda>(username, password). Sprintf_line username password) rows"

definition render_lines :: "string list \<Rightarrow> string" where
  "render_lines lines = Join (sort lines) [nl] @ [nl]"

definition render :: "(string \<times> string) list \<Rightarrow> string" where
  "render rows = render_lines (lines_of rows)"

subsection \<open>Files, failures and the record of effects\<close>

text \<open>
  The file store maps a file name to its bytes. Every call of the source whose error is
  inspected has a site; the environment says which sites fail for a reason outside
  the program (permissions, a full disk, a timeout), how many bytes a failing write had
  already transferred, the clock, the digest, and what the reload command does to the
  files and whether it ran and exited with status 0. A call also fails by itself when the file it
  opens or renames does not exist. \<^verbatim>\<open>os.Stat\<close> is used by the source as an existence test
  only.

  The log lists the calls that completed, in order; it is a record for the theorems and
  is never read by the program.
\<close>

datatype site =
    SqlOpen | BeginTx | QueryContext | RowsErr
  | TmpOpen | TmpData
  | CurOpen | CurRead | OldOpen | OldRead
  | SrcOpen | DstCreate | DstCopy | DstClose
  | TriggerOpen | TriggerData
  | TmpRename

datatype error = Failed site | NotExist string | ScanNull | ExitError

datatype event =
    EWriteFile string string
  | EMd5 string
  | ECopy string string
  | ERename string string
  | ERemove string
  | EReload string

type_synonym fs = "string \<rightharpoonup> string"

record world =
  files :: fs
  log :: "event list"

record env =
  fails :: "site \<Rightarrow> bool"
  cut :: nat
  now :: int
  md5hex :: "string \<Rightarrow> string"
  shell :: "string \<Rightarrow> fs \<Rightarrow> bool \<times> fs"

definition put :: "string \<Rightarrow> string \<Rightarrow> world \<Rightarrow> world" where
  "put name data w = w\<lparr>files := (files w)(name \<mapsto> data)\<rparr>"

definition did :: "event \<Rightarrow> world \<Rightarrow> world" where
  "did ev w = w\<lparr>log := log w @ [ev]\<rparr>"

text \<open>
  \<^verbatim>\<open>os.WriteFile\<close> (and \<^verbatim>\<open>ioutil.WriteFile\<close>): open with create and truncate, write, close.
  A failure to open leaves the file as it was; a failure while writing leaves a prefix.
\<close>

definition WriteFile :: "env \<Rightarrow> site \<Rightarrow> site \<Rightarrow> string \<Rightarrow> string \<Rightarrow> world \<Rightarrow> (error + unit) \<times> world" where
  "WriteFile e sOpen sData name data w =
     (if fails e sOpen then (Inl (Failed sOpen), w)
      else if fails e sData then (Inl (Failed sData), put name (take (cut e) data) w)
      else (Inr (), did (EWriteFile name data) (put name data w)))"

definition Stat_ok :: "string \<Rightarrow> world \<Rightarrow> bool" where
  "Stat_ok name w = (files w name \<noteq> None)"

definition Rename :: "env \<Rightarrow> string \<Rightarrow> string \<Rightarrow> world \<Rightarrow> (error + unit) \<times> world" where
  "Rename e old new w =
     (if fails e TmpRename then (Inl (Failed TmpRename), w)
      else (case files w old of
              None \<Rightarrow> (Inl (NotExist old), w)
            | Some data \<Rightarrow>
                (Inr (), did (ERename old new) (w\<lparr>files := ((files w)(old := None))(new \<mapsto> data)\<rparr>))))"

definition Remove :: "string \<Rightarrow> world \<Rightarrow> (error + unit) \<times> world" where
  "Remove name w =
     (case files w name of
        None \<Rightarrow> (Inl (NotExist name), w)
      | Some _ \<Rightarrow> (Inr (), did (ERemove name) (w\<lparr>files := (files w)(name := None)\<rparr>)))"

subsection \<open>The functions of the program\<close>

text \<open>\<^verbatim>\<open>calcMd5File\<close>: open, stream through MD5, hex-encode.\<close>

definition calcMd5File :: "env \<Rightarrow> site \<Rightarrow> site \<Rightarrow> string \<Rightarrow> world \<Rightarrow> (error + string) \<times> world" where
  "calcMd5File e sOpen sRead filename w =
     (let filename = Clean filename in
      if fails e sOpen then (Inl (Failed sOpen), w)
      else (case files w filename of
              None \<Rightarrow> (Inl (NotExist filename), w)
            | Some data \<Rightarrow>
                if fails e sRead then (Inl (Failed sRead), w)
                else (Inr (md5hex e data), did (EMd5 filename) w)))"

text \<open>
  \<^verbatim>\<open>copyFile\<close>: open the source, create (truncate) the destination, copy, close. The
  source is read after the destination was truncated.
\<close>

definition copyFile :: "env \<Rightarrow> string \<Rightarrow> string \<Rightarrow> world \<Rightarrow> (error + unit) \<times> world" where
  "copyFile e src dst w =
     (let src = Clean src; dst = Clean dst in
      if fails e SrcOpen then (Inl (Failed SrcOpen), w)
      else (case files w src of
              None \<Rightarrow> (Inl (NotExist src), w)
            | Some _ \<Rightarrow>
                if fails e DstCreate then (Inl (Failed DstCreate), w)
                else
                  (let w1 = put dst [] w;
                       data = (case files w1 src of None \<Rightarrow> [] | Some d \<Rightarrow> d)
                   in if fails e DstCopy then (Inl (Failed DstCopy), put dst (take (cut e) data) w1)
                      else if fails e DstClose then (Inl (Failed DstClose), put dst data w1)
                      else (Inr (), did (ECopy src dst) (put dst data w1)))))"

definition writeTriggerFile :: "env \<Rightarrow> config \<Rightarrow> world \<Rightarrow> (error + unit) \<times> world" where
  "writeTriggerFile e cfg w = WriteFile e TriggerOpen TriggerData (reloadTriggerFile cfg) [] w"

definition checkTriggerFileExists :: "config \<Rightarrow> world \<Rightarrow> bool" where
  "checkTriggerFileExists cfg w = Stat_ok (reloadTriggerFile cfg) w"

text \<open>\<^verbatim>\<open>runReloadCommand\<close>: \<^verbatim>\<open>/bin/bash -ec\<close> on the configured string.\<close>

definition runReloadCommand :: "env \<Rightarrow> config \<Rightarrow> world \<Rightarrow> (error + unit) \<times> world" where
  "runReloadCommand e cfg w =
     (case shell e (reloadCommand cfg) (files w) of
        (ok, fs') \<Rightarrow>
          (if ok then Inr () else Inl ExitError,
           did (EReload (reloadCommand cfg)) (w\<lparr>files := fs'\<rparr>)))"

text \<open>
  The loop over \<^verbatim>\<open>rows.Next()\<close>: \<^verbatim>\<open>rows.Scan\<close> into two Go strings fails on NULL, and the
  function returns at the first failure.
\<close>

fun scan_rows :: "(string \<times> string option) list \<Rightarrow> string list \<Rightarrow> error + string list" where
  "scan_rows [] lines = Inr lines"
| "scan_rows ((username, None) # rows) lines = Inl ScanNull"
| "scan_rows ((username, Some password) # rows) lines =
     scan_rows rows (lines @ [Sprintf_line username password])"

definition backup_path :: "string \<Rightarrow> int \<Rightarrow> string" where
  "backup_path path unix = path @ ''.backup-'' @ showInt unix"

text \<open>
  \<^verbatim>\<open>generateUserList\<close> from the line after \<^verbatim>\<open>defer os.Remove(tmpConfigPath)\<close> to its
  return, in two parts: the comparison with the backup, and the trigger with the rename.
\<close>

definition publish :: "env \<Rightarrow> config \<Rightarrow> string \<Rightarrow> string \<Rightarrow> world \<Rightarrow> (error + unit) \<times> world" where
  "publish e cfg tmpConfigPath path w =
     (case writeTriggerFile e cfg w of
        (Inl err, w1) \<Rightarrow> (Inl err, w1)
      | (Inr _, w1) \<Rightarrow> Rename e tmpConfigPath path w1)"

definition compare_and_publish :: "env \<Rightarrow> config \<Rightarrow> string \<Rightarrow> string \<Rightarrow> world \<Rightarrow> (error + unit) \<times> world" where
  "compare_and_publish e cfg tmpConfigPath path w =
     (if Stat_ok path w then
        (case calcMd5File e CurOpen CurRead tmpConfigPath w of
           (Inl errCurrentMd5, w1) \<Rightarrow> (Inl errCurrentMd5, w1)
         | (Inr currentMd5, w1) \<Rightarrow>
             (case calcMd5File e OldOpen OldRead path w1 of
                (Inl errOldMd5, w2) \<Rightarrow> (Inl errOldMd5, w2)
              | (Inr oldMd5, w2) \<Rightarrow>
                  if currentMd5 = oldMd5 then (Inr (), w2)
                  else (case copyFile e path (backup_path path (now e)) w2 of
                          (Inl errBackup, w3) \<Rightarrow> (Inl errBackup, w3)
                        | (Inr _, w3) \<Rightarrow> publish e cfg tmpConfigPath path w3)))
      else publish e cfg tmpConfigPath path w)"

text \<open>
  \<^verbatim>\<open>generateUserList\<close>. The deferred \<^verbatim>\<open>os.Remove\<close> runs on every return after the
  temporary file was written, and its error is dropped.
\<close>

definition generateUserList :: "env \<Rightarrow> config \<Rightarrow> database \<Rightarrow> string \<Rightarrow> string list \<Rightarrow> world \<Rightarrow> (error + unit) \<times> world" where
  "generateUserList e cfg db path exclude w =
     (let tmpConfigPath = path @ ''.tmp'' in
      if fails e BeginTx then (Inl (Failed BeginTx), w)
      else if fails e QueryContext then (Inl (Failed QueryContext), w)
      else (case scan_rows (query db exclude) [] of
              Inl errScan \<Rightarrow> (Inl errScan, w)
            | Inr lines \<Rightarrow>
                if fails e RowsErr then (Inl (Failed RowsErr), w)
                else (case WriteFile e TmpOpen TmpData tmpConfigPath (render_lines lines) w of
                        (Inl errWrite, w1) \<Rightarrow> (Inl errWrite, w1)
                      | (Inr _, w1) \<Rightarrow>
                          (case compare_and_publish e cfg tmpConfigPath path w1 of
                             (r, w2) \<Rightarrow> (r, snd (Remove tmpConfigPath w2))))))"

text \<open>\<^verbatim>\<open>main\<close>: a fatal error ends the process before the trigger is looked at.\<close>

definition main :: "env \<Rightarrow> config \<Rightarrow> database \<Rightarrow> world \<Rightarrow> (error + unit) \<times> world" where
  "main e cfg db w =
     (if fails e SqlOpen then (Inl (Failed SqlOpen), w)
      else (case generateUserList e cfg db (filePath cfg) (Split (excludeAccounts cfg) CHR '','') w of
              (Inl errGenerate, w1) \<Rightarrow> (Inl errGenerate, w1)
            | (Inr _, w1) \<Rightarrow>
                if checkTriggerFileExists cfg w1 then
                  (case runReloadCommand e cfg w1 of
                     (Inl err, w2) \<Rightarrow> (Inl err, w2)
                   | (Inr _, w2) \<Rightarrow> (Inr (), w2))
                else (Inr (), w1)))"

subsection \<open>Concrete inputs of the examples\<close>

text \<open>
  The catalogue of the end-to-end example, a catalogue in which B is a member of two
  groups, and an environment for running the program on concrete inputs: the sites
  given fail, the digest of a content is the content itself, the clock stands at
  1730000000, and the reload command succeeds and touches no file.
\<close>

definition alice_bob_db :: database where
  "alice_bob_db =
     \<lparr>pg_authid =
        [\<lparr>oid = 10, rolname = ''alice'', rolpassword = Some ''pw1''\<rparr>,
         \<lparr>oid = 11, rolname = ''bob'', rolpassword = Some ''pw2''\<rparr>],
      pg_auth_members = []\<rparr>"

definition two_groups_db :: database where
  "two_groups_db =
     \<lparr>pg_authid =
        [\<lparr>oid = 2, rolname = ''B'', rolpassword = Some ''pwB''\<rparr>,
         \<lparr>oid = 4, rolname = ''G'', rolpassword = None\<rparr>,
         \<lparr>oid = 5, rolname = ''H'', rolpassword = None\<rparr>],
      pg_auth_members = [\<lparr>roleid = 4, memberid = 2\<rparr>, \<lparr>roleid = 5, memberid = 2\<rparr>]\<rparr>"

definition alice_bob_text :: string where
  "alice_bob_text =
     [dq] @ ''alice'' @ [dq] @ '' '' @ [dq] @ ''pw1'' @ [dq, nl] @
     [dq] @ ''bob'' @ [dq] @ '' '' @ [dq] @ ''pw2'' @ [dq, nl]"

definition no_site :: "site \<Rightarrow> bool" where
  "no_site s = False"

definition only :: "site \<Rightarrow> site \<Rightarrow> bool" where
  "only s t = (t = s)"

definition plain_env :: "(site \<Rightarrow> bool) \<Rightarrow> env" where
  "plain_env f =
     \<lparr>fails = f, cut = 0, now = 1730000000, md5hex = (\<lambda>content. content),
      shell = (\<lambda>command fs. (True, fs))\<rparr>"

definition fresh_world :: world where
  "fresh_world = \<lparr>files = Map.empty, log = []\<rparr>"

definition live_world :: "string \<Rightarrow> world" where
  "live_world old = \<lparr>files = [filePath default_config \<mapsto> old], log = []\<rparr>"

definition marked_world :: "string \<Rightarrow> world" where
  "marked_world old =
     \<lparr>files = [filePath default_config \<mapsto> old, reloadTriggerFile default_config \<mapsto> []], log = []\<rparr>"

section \<open>Properties\<close>

subsection \<open>Rendering\<close>

lemma Join_concat: "ls \<noteq> [] \<Longrightarrow> Join ls sep @ sep = concat (map (\<lambda>l. l @ sep) ls)"
  by (induction ls sep rule: Join.induct) simp_all

lemma lines_of_Nil_iff: "lines_of rows = [] \<longleftrightarrow> rows = []"
  by (simp add: lines_of_def)

lemma sort_Nil_iff: "sort xs = [] \<longleftrightarrow> xs = []"
  by (metis length_sort length_0_conv)

lemma render_concat:
  "render rows = (if rows = [] then [nl] else concat (map (\<lambda>l. l @ [nl]) (sort (lines_of rows))))"
  by (cases "rows = []")
     (simp_all add: render_def render_lines_def Join_concat sort_Nil_iff lines_of_Nil_iff lines_of_def)

lemma last_Sprintf_line: "last (Sprintf_line u p) = dq"
  by (simp add: Sprintf_line_def)

lemma Sprintf_line_not_Nil: "Sprintf_line u p \<noteq> []"
  by (simp add: Sprintf_line_def)

lemma Join_last:
  "ls \<noteq> [] \<Longrightarrow> \<forall>l \<in> set ls. l \<noteq> [] \<and> last l = c \<Longrightarrow> Join ls sep \<noteq> [] \<and> last (Join ls sep) = c"
  by (induction ls sep rule: Join.induct) auto

lemma dq_neq_nl: "dq \<noteq> nl"
  by (simp add: dq_def nl_def)

lemma render_body:
  "\<exists>body. render rows = body @ [nl] \<and> (body = [] \<or> last body \<noteq> nl)"
proof (cases "rows = []")
  case True
  then show ?thesis by (simp add: render_def render_lines_def lines_of_def)
next
  case False
  let ?ls = "sort (lines_of rows)"
  have ne: "?ls \<noteq> []" using False by (simp add: sort_Nil_iff lines_of_Nil_iff)
  have "\<forall>l \<in> set ?ls. l \<noteq> [] \<and> last l = dq"
    by (auto simp: lines_of_def last_Sprintf_line Sprintf_line_not_Nil)
  from Join_last [OF ne this] have "last (Join ?ls [nl]) \<noteq> nl"
    using dq_neq_nl by simp
  then show ?thesis by (simp add: render_def render_lines_def)
qed

text \<open>
  C8. Rendering does not depend on the order of the input: two credential sets that are
  permutations of each other render to the same bytes.
\<close>

theorem render_permutation:
  "mset rows' = mset rows \<Longrightarrow> render rows' = render rows"
proof -
  assume "mset rows' = mset rows"
  then have "mset (lines_of rows') = mset (lines_of rows)"
    unfolding lines_of_def by (metis mset_map)
  then have "sort (lines_of rows') = sort (lines_of rows)"
    by (metis properties_for_sort sorted_sort mset_sort)
  then show ?thesis by (simp add: render_def render_lines_def)
qed

theorem render_permutation_witness:
  "mset [(''bob'', ''pw2''), (''alice'', ''pw1'')] = mset [(''alice'', ''pw1''), (''bob'', ''pw2'')]
   \<and> render [(''bob'', ''pw2''), (''alice'', ''pw1'')] = render [(''alice'', ''pw1''), (''bob'', ''pw2'')]"
proof -
  have h: "mset [(''bob'', ''pw2''), (''alice'', ''pw1'')] = mset [(''alice'', ''pw1''), (''bob'', ''pw2'')]"
    by simp
  show ?thesis using h render_permutation [OF h] by simp
qed

lemma render_collision:
  "render [(''a'', ''x'' @ [dq, nl, dq] @ ''b'' @ [dq, CHR '' '', dq] @ ''y'')] = render [(''a'', ''x''), (''b'', ''y'')]"
  by (simp add: render_def render_lines_def lines_of_def Sprintf_line_def dq_def nl_def)

text \<open>
  C9. Nothing is escaped: the line of a record is a double quote, the user name as it is,
  quote space quote, the password as it is, and a double quote. Every quote and every
  newline of a field is in the line, so the artifact is no longer one well-formed quoted
  line per credential: a single record with a newline in its password renders to the same
  bytes as two records, and a quote in a field moves the boundary between the two fields.
\<close>

theorem Sprintf_line_verbatim:
  "Sprintf_line username password = dq # username @ dq # CHR '' '' # dq # password @ [dq]
   \<and> length (Sprintf_line username password) = length username + length password + 5
   \<and> count_list (Sprintf_line username password) dq = 4 + count_list username dq + count_list password dq
   \<and> count_list (Sprintf_line username password) nl = count_list username nl + count_list password nl
   \<and> render [(''a'', ''x'' @ [dq, nl, dq] @ ''b'' @ [dq, CHR '' '', dq] @ ''y'')] = render [(''a'', ''x''), (''b'', ''y'')]
   \<and> render [(''a'' @ [dq, CHR '' '', dq] @ ''b'', ''c'')] = render [(''a'', ''b'' @ [dq, CHR '' '', dq] @ ''c'')]"
proof -
  have "render [(''a'' @ [dq, CHR '' '', dq] @ ''b'', ''c'')] = render [(''a'', ''b'' @ [dq, CHR '' '', dq] @ ''c'')]"
    by (simp add: render_def render_lines_def lines_of_def Sprintf_line_def)
  moreover have "count_list (Sprintf_line username password) nl = count_list username nl + count_list password nl"
    by (simp add: Sprintf_line_def dq_def nl_def)
  moreover have "count_list (Sprintf_line username password) dq = 4 + count_list username dq + count_list password dq"
    by (simp add: Sprintf_line_def dq_def)
  ultimately show ?thesis
    using render_collision by (simp add: Sprintf_line_def)
qed

subsection \<open>The query\<close>

lemma left_join_row_set:
  "set (case filter P bs of [] \<Rightarrow> [(a, None)] | ms \<Rightarrow> map (\<lambda>b. (a, Some b)) ms) =
     (if \<forall>b \<in> set bs. \<not> P b then {(a, None)} else (\<lambda>b. (a, Some b)) ` {b \<in> set bs. P b})"
proof (cases "filter P bs")
  case Nil
  then show ?thesis by (simp add: filter_empty_conv)
next
  case (Cons x xs)
  then have "\<not> (\<forall>b \<in> set bs. \<not> P b)"
    by (metis filter_empty_conv list.distinct(1))
  moreover have "set (x # xs) = {b \<in> set bs. P b}"
    using Cons by (metis set_filter)
  then have "set (map (\<lambda>b. (a, Some b)) (x # xs)) = (\<lambda>b. (a, Some b)) ` {b \<in> set bs. P b}"
    by (simp only: set_map)
  ultimately show ?thesis using Cons by (auto simp del: set_map list.map)
qed

lemma left_join_set:
  "(a, ob) \<in> set (left_join as bs on) \<longleftrightarrow>
     a \<in> set as \<and> (case ob of None \<Rightarrow> \<forall>b \<in> set bs. \<not> on a b | Some b \<Rightarrow> b \<in> set bs \<and> on a b)"
  unfolding left_join_def
  by (auto simp: left_join_row_set split: option.splits if_splits)

text \<open>
  The rows the query returns: the roles with a password that are a member of no role, or
  have at least one membership whose group is not named in the exclusion list. The name of
  the role itself is never compared with the list.
\<close>

lemma query_set:
  "(username, password) \<in> set (query db exclude) \<longleftrightarrow>
     (\<exists>a \<in> set (pg_authid db).
        rolname a = username \<and> rolpassword a = password \<and> password \<noteq> None \<and>
        ((\<forall>m \<in> set (pg_auth_members db). memberid m \<noteq> oid a)
         \<or> (\<exists>m \<in> set (pg_auth_members db). memberid m = oid a \<and>
               ((\<forall>g \<in> set (pg_authid db). oid g \<noteq> roleid m)
                \<or> (\<exists>g \<in> set (pg_authid db). oid g = roleid m \<and> rolname g \<notin> set exclude)))))"
  (is "?L \<longleftrightarrow> ?R")
proof
  assume ?L
  then obtain a m r where row: "((a, m), r) \<in> set (joined db)" and wh: "where_clause exclude ((a, m), r)"
    and nm: "rolname a = username" "rolpassword a = password"
    by (auto simp: query_def)
  from row have a: "a \<in> set (pg_authid db)"
    and m: "(case m of None \<Rightarrow> \<forall>b \<in> set (pg_auth_members db). oid a \<noteq> memberid b
                     | Some b \<Rightarrow> b \<in> set (pg_auth_members db) \<and> oid a = memberid b)"
    and r: "(case r of None \<Rightarrow> \<forall>g \<in> set (pg_roles db). \<not> (case m of None \<Rightarrow> False | Some m' \<Rightarrow> roleid m' = fst g)
                     | Some g \<Rightarrow> g \<in> set (pg_roles db) \<and> (case m of None \<Rightarrow> False | Some m' \<Rightarrow> roleid m' = fst g))"
    by (auto simp: joined_def left_join_set)
  have pw: "password \<noteq> None"
    using wh nm by (auto simp: where_clause_def)
  have "(\<forall>m \<in> set (pg_auth_members db). memberid m \<noteq> oid a)
         \<or> (\<exists>m \<in> set (pg_auth_members db). memberid m = oid a \<and>
               ((\<forall>g \<in> set (pg_authid db). oid g \<noteq> roleid m)
                \<or> (\<exists>g \<in> set (pg_authid db). oid g = roleid m \<and> rolname g \<notin> set exclude)))"
  proof (cases m)
    case None
    with m show ?thesis by auto
  next
    case (Some b)
    then have b: "b \<in> set (pg_auth_members db)" "memberid b = oid a"
      using m by auto
    show ?thesis
    proof (cases r)
      case None
      with Some r have "\<forall>g \<in> set (pg_authid db). oid g \<noteq> roleid b"
        by (auto simp: pg_roles_def)
      with b show ?thesis by blast
    next
      case (Some g)
      with \<open>m = Some b\<close> r wh obtain g' where "g' \<in> set (pg_authid db)" "oid g' = roleid b" "rolname g' \<notin> set exclude"
        by (auto simp: pg_roles_def where_clause_def)
      with b show ?thesis by blast
    qed
  qed
  with a nm pw show ?R by blast
next
  assume ?R
  then obtain a where a: "a \<in> set (pg_authid db)" and nm: "rolname a = username" "rolpassword a = password"
    and pw: "password \<noteq> None"
    and grp: "(\<forall>m \<in> set (pg_auth_members db). memberid m \<noteq> oid a)
         \<or> (\<exists>m \<in> set (pg_auth_members db). memberid m = oid a \<and>
               ((\<forall>g \<in> set (pg_authid db). oid g \<noteq> roleid m)
                \<or> (\<exists>g \<in> set (pg_authid db). oid g = roleid m \<and> rolname g \<notin> set exclude)))"
    by blast
  have "\<exists>m r. ((a, m), r) \<in> set (joined db) \<and> where_clause exclude ((a, m), r)"
    using grp
  proof (elim disjE bexE conjE)
    assume "\<forall>m \<in> set (pg_auth_members db). memberid m \<noteq> oid a"
    then have "((a, None), None) \<in> set (joined db)"
      using a by (auto simp: joined_def left_join_set)
    moreover have "where_clause exclude ((a, None), None)"
      using pw nm by (simp add: where_clause_def)
    ultimately show ?thesis by blast
  next
    fix m assume m: "m \<in> set (pg_auth_members db)" "memberid m = oid a"
      and "\<forall>g \<in> set (pg_authid db). oid g \<noteq> roleid m"
    then have "((a, Some m), None) \<in> set (joined db)"
      using a by (auto simp: joined_def left_join_set pg_roles_def)
    moreover have "where_clause exclude ((a, Some m), None)"
      using pw nm by (simp add: where_clause_def)
    ultimately show ?thesis by blast
  next
    fix m g assume m: "m \<in> set (pg_auth_members db)" "memberid m = oid a"
      and g: "g \<in> set (pg_authid db)" "oid g = roleid m" "rolname g \<notin> set exclude"
    then have "(oid g, rolname g) \<in> set (pg_roles db)"
      by (force simp: pg_roles_def)
    with m g have "((a, Some m), Some (oid g, rolname g)) \<in> set (joined db)"
      using a by (auto simp: joined_def left_join_set)
    moreover have "where_clause exclude ((a, Some m), Some (oid g, rolname g))"
      using pw nm g by (simp add: where_clause_def)
    ultimately show ?thesis by blast
  qed
  then show ?L using nm by (force simp: query_def)
qed

lemma query_password: "(username, password) \<in> set (query db exclude) \<Longrightarrow> password \<noteq> None"
  by (auto simp: query_def where_clause_def)

lemma scan_rows_acc:
  "\<forall>row \<in> set rows. snd row \<noteq> None \<Longrightarrow>
   scan_rows rows acc = Inr (acc @ lines_of (concat (map (\<lambda>(username, password). (case password of None \<Rightarrow> [] | Some s \<Rightarrow> [(username, s)])) rows)))"
  by (induction rows acc rule: scan_rows.induct) (simp_all add: lines_of_def)

lemma scan_rows_query: "scan_rows (query db exclude) [] = Inr (lines_of (credentials db exclude))"
proof -
  have "\<forall>row \<in> set (query db exclude). snd row \<noteq> None"
    using query_password by fastforce
  from scan_rows_acc [OF this, of "[]"] show ?thesis
    by (simp add: credentials_def)
qed

text \<open>
  C2. The claim is that the fetched set leaves out every principal named in the exclusion
  list and every member of a named group, so that the catalogue with A, B (member of G)
  and C and the list \<^verbatim>\<open>[G, C]\<close> renders A alone. The query compares the list with the
  names of the groups a role is a member of only: C, which is in no group, is fetched and
  rendered, and a member of G that is also a member of a group outside the list is
  fetched as well.
\<close>

theorem query_keeps_named_principal:
  "credentials example_db [''G'', ''C''] = [(''A'', ''pwA''), (''C'', ''pwC'')]
   \<and> render (credentials example_db [''G'', ''C'']) =
       [dq] @ ''A'' @ [dq] @ '' '' @ [dq] @ ''pwA'' @ [dq, nl] @
       [dq] @ ''C'' @ [dq] @ '' '' @ [dq] @ ''pwC'' @ [dq, nl]
   \<and> credentials two_groups_db [''G''] = [(''B'', ''pwB'')]"
  by (simp add: credentials_def query_def joined_def left_join_def where_clause_def pg_roles_def
        example_db_def two_groups_db_def render_def render_lines_def lines_of_def Sprintf_line_def dq_def)

subsection \<open>Runs of \<^verbatim>\<open>generateUserList\<close>\<close>

lemmas io_defs = WriteFile_def calcMd5File_def copyFile_def Rename_def Remove_def Stat_ok_def
  put_def did_def Clean_def writeTriggerFile_def
lemmas run_defs = generateUserList_def compare_and_publish_def publish_def backup_path_def

lemma unchanged_run:
  assumes db: "\<not> fails e BeginTx" "\<not> fails e QueryContext" "\<not> fails e RowsErr"
    and tmp: "\<not> fails e TmpOpen" "\<not> fails e TmpData"
    and md5: "\<not> fails e CurOpen" "\<not> fails e CurRead" "\<not> fails e OldOpen" "\<not> fails e OldRead"
    and live: "files w path = Some old"
    and same: "md5hex e (render (credentials db exclude)) = md5hex e old"
  shows "generateUserList e cfg db path exclude w =
           (Inr (), w\<lparr>files := (files w)(path @ ''.tmp'' := None),
                      log := log w @ [EWriteFile (path @ ''.tmp'') (render (credentials db exclude)),
                                      EMd5 (path @ ''.tmp''), EMd5 path, ERemove (path @ ''.tmp'')]\<rparr>)"
  using assms
  by (simp add: run_defs io_defs scan_rows_query render_def Let_def)

lemma first_run:
  assumes db: "\<not> fails e BeginTx" "\<not> fails e QueryContext" "\<not> fails e RowsErr"
    and tmp: "\<not> fails e TmpOpen" "\<not> fails e TmpData"
    and live: "files w path = None"
    and pub: "\<not> fails e TriggerOpen" "\<not> fails e TriggerData" "\<not> fails e TmpRename"
  shows "fst (generateUserList e cfg db path exclude w) = Inr ()"
    and "log (snd (generateUserList e cfg db path exclude w)) = log w @ [EWriteFile (path @ ''.tmp'') (render (credentials db exclude)),
                                      EWriteFile (reloadTriggerFile cfg) [], ERename (path @ ''.tmp'') path]"
    and "reloadTriggerFile cfg \<noteq> path @ ''.tmp'' \<Longrightarrow> files (snd (generateUserList e cfg db path exclude w)) path = Some (render (credentials db exclude))"
  using assms
  by (simp_all add: run_defs io_defs scan_rows_query render_def Let_def)

lemma tmp_removed:
  assumes db: "\<not> fails e BeginTx" "\<not> fails e QueryContext" "\<not> fails e RowsErr"
    and tmp: "\<not> fails e TmpOpen" "\<not> fails e TmpData"
  shows "files (snd (generateUserList e cfg db path exclude w)) (path @ ''.tmp'') = None"
  using assms
  by (simp add: generateUserList_def WriteFile_def scan_rows_query Remove_def did_def Let_def split: prod.splits option.splits)

lemma WriteFile_keeps:
  "WriteFile e sOpen sData name data w = (r, w') \<Longrightarrow> Stat_ok n w \<Longrightarrow> Stat_ok n w'"
  by (auto simp: WriteFile_def Stat_ok_def put_def did_def split: if_splits)

lemma calcMd5File_files:
  "calcMd5File e sOpen sRead name w = (r, w') \<Longrightarrow> files w' = files w"
  by (auto simp: calcMd5File_def did_def Let_def split: if_splits option.splits)

lemma calcMd5File_keeps:
  "calcMd5File e sOpen sRead name w = (r, w') \<Longrightarrow> Stat_ok n w \<Longrightarrow> Stat_ok n w'"
  by (simp add: Stat_ok_def calcMd5File_files)

lemma copyFile_keeps:
  "copyFile e src dst w = (r, w') \<Longrightarrow> Stat_ok n w \<Longrightarrow> Stat_ok n w'"
  by (auto simp: copyFile_def Stat_ok_def put_def did_def Let_def Clean_def split: if_splits option.splits)

lemma Rename_keeps:
  "Rename e old new w = (r, w') \<Longrightarrow> n \<noteq> old \<Longrightarrow> Stat_ok n w \<Longrightarrow> Stat_ok n w'"
  by (auto simp: Rename_def Stat_ok_def did_def split: if_splits option.splits)

lemma Remove_keeps:
  "n \<noteq> name \<Longrightarrow> Stat_ok n w \<Longrightarrow> Stat_ok n (snd (Remove name w))"
  by (auto simp: Remove_def Stat_ok_def did_def split: option.splits)

lemma publish_keeps:
  assumes "publish e cfg tmp path w = (r, w')" "n \<noteq> tmp" "Stat_ok n w"
  shows "Stat_ok n w'"
proof (cases "writeTriggerFile e cfg w")
  case (Pair r1 w1)
  then have w1: "Stat_ok n w1"
    using assms(3) WriteFile_keeps unfolding writeTriggerFile_def by blast
  show ?thesis
  proof (cases r1)
    case (Inl err)
    with Pair assms(1) w1 show ?thesis by (simp add: publish_def)
  next
    case (Inr u)
    with Pair assms(1) have "Rename e tmp path w1 = (r, w')" by (simp add: publish_def)
    from Rename_keeps [OF this assms(2) w1] show ?thesis .
  qed
qed

lemma compare_and_publish_keeps:
  assumes run: "compare_and_publish e cfg tmp path w = (r, w')" and n: "n \<noteq> tmp" "Stat_ok n w"
  shows "Stat_ok n w'"
proof (cases "Stat_ok path w")
  case False
  with run have "publish e cfg tmp path w = (r, w')" by (simp add: compare_and_publish_def)
  from publish_keeps [OF this n] show ?thesis .
next
  case True
  obtain r1 w1 where c1: "calcMd5File e CurOpen CurRead tmp w = (r1, w1)" by fastforce
  obtain r2 w2 where c2: "calcMd5File e OldOpen OldRead path w1 = (r2, w2)" by fastforce
  obtain r3 w3 where c3: "copyFile e path (backup_path path (now e)) w2 = (r3, w3)" by fastforce
  have k1: "Stat_ok n w1" using calcMd5File_keeps [OF c1 n(2)] .
  have k2: "Stat_ok n w2" using calcMd5File_keeps [OF c2 k1] .
  have k3: "Stat_ok n w3" using copyFile_keeps [OF c3 k2] .
  have k4: "publish e cfg tmp path w3 = (r, w') \<Longrightarrow> Stat_ok n w'"
    using publish_keeps [OF _ n(1) k3] .
  from run True c1 c2 c3 k1 k2 k3 k4 show ?thesis
    by (auto simp: compare_and_publish_def split: sum.splits if_splits)
qed

lemma marker_kept:
  assumes "Stat_ok n w" "n \<noteq> path @ ''.tmp''"
  shows "Stat_ok n (snd (generateUserList e cfg db path exclude w))"
proof -
  let ?tmp = "path @ ''.tmp''"
  obtain r1 w1 where w1: "WriteFile e TmpOpen TmpData ?tmp (render_lines (lines_of (credentials db exclude))) w = (r1, w1)"
    by fastforce
  obtain r2 w2 where w2: "compare_and_publish e cfg ?tmp path w1 = (r2, w2)" by fastforce
  have k1: "Stat_ok n w1" using WriteFile_keeps [OF w1 assms(1)] .
  have k2: "Stat_ok n w2" using compare_and_publish_keeps [OF w2 assms(2) k1] .
  have k3: "Stat_ok n (snd (Remove ?tmp w2))" using Remove_keeps [OF assms(2) k2] .
  from assms(1) w1 w2 k1 k3 show ?thesis
    by (auto simp: generateUserList_def scan_rows_query Let_def split: sum.splits)
qed

lemma changed_backup_fails:
  assumes db: "\<not> fails e BeginTx" "\<not> fails e QueryContext" "\<not> fails e RowsErr"
    and tmp: "\<not> fails e TmpOpen" "\<not> fails e TmpData"
    and md5: "\<not> fails e CurOpen" "\<not> fails e CurRead" "\<not> fails e OldOpen" "\<not> fails e OldRead"
    and live: "files w path = Some old"
    and diff: "md5hex e (render (credentials db exclude)) \<noteq> md5hex e old"
    and copy: "fails e SrcOpen \<or> fails e DstCreate \<or> fails e DstCopy \<or> fails e DstClose"
    and run: "generateUserList e cfg db path exclude w = (r, w')"
  shows "r \<in> {Inl (Failed SrcOpen), Inl (Failed DstCreate), Inl (Failed DstCopy), Inl (Failed DstClose)}"
    and "files w' path = Some old"
    and "files w' (path @ ''.tmp'') = None"
    and "\<forall>n. n \<noteq> path @ ''.tmp'' \<and> n \<noteq> backup_path path (now e) \<longrightarrow> files w' n = files w n"
    and "log w' = log w @ [EWriteFile (path @ ''.tmp'') (render (credentials db exclude)),
                          EMd5 (path @ ''.tmp''), EMd5 path, ERemove (path @ ''.tmp'')]"
  using assms
  by (auto simp: run_defs io_defs scan_rows_query render_def Let_def split: if_splits)

lemma changed_backup_ok:
  assumes db: "\<not> fails e BeginTx" "\<not> fails e QueryContext" "\<not> fails e RowsErr"
    and tmp: "\<not> fails e TmpOpen" "\<not> fails e TmpData"
    and md5: "\<not> fails e CurOpen" "\<not> fails e CurRead" "\<not> fails e OldOpen" "\<not> fails e OldRead"
    and live: "files w path = Some old"
    and diff: "md5hex e (render (credentials db exclude)) \<noteq> md5hex e old"
    and copy: "\<not> fails e SrcOpen" "\<not> fails e DstCreate" "\<not> fails e DstCopy" "\<not> fails e DstClose"
    and run: "generateUserList e cfg db path exclude w = (r, w')"
  shows "\<exists>evs. log w' = log w @ [EWriteFile (path @ ''.tmp'') (render (credentials db exclude)),
                          EMd5 (path @ ''.tmp''), EMd5 path, ECopy path (path @ ''.backup-'' @ showInt (now e))] @ evs"
    and "reloadTriggerFile cfg \<noteq> path @ ''.backup-'' @ showInt (now e) \<Longrightarrow> files w' (path @ ''.backup-'' @ showInt (now e)) = Some old"
  using assms
  by (auto simp: run_defs io_defs scan_rows_query render_def Let_def split: if_splits)

text \<open>The events of a run up to the publish stage.\<close>

lemma publish_stage:
  assumes db: "\<not> fails e BeginTx" "\<not> fails e QueryContext" "\<not> fails e RowsErr"
    and tmp: "\<not> fails e TmpOpen" "\<not> fails e TmpData"
    and reach: "files w path = None \<and> pre = [EWriteFile (path @ ''.tmp'') (render (credentials db exclude))]
       \<or> (\<exists>old. files w path = Some old \<and> md5hex e (render (credentials db exclude)) \<noteq> md5hex e old)
          \<and> \<not> fails e CurOpen \<and> \<not> fails e CurRead \<and> \<not> fails e OldOpen \<and> \<not> fails e OldRead
          \<and> \<not> fails e SrcOpen \<and> \<not> fails e DstCreate \<and> \<not> fails e DstCopy \<and> \<not> fails e DstClose
          \<and> pre = [EWriteFile (path @ ''.tmp'') (render (credentials db exclude)),
                    EMd5 (path @ ''.tmp''), EMd5 path, ECopy path (backup_path path (now e))]"
    and run: "generateUserList e cfg db path exclude w = (r, w')"
  shows "fails e TriggerOpen \<or> fails e TriggerData \<Longrightarrow>
           r \<in> {Inl (Failed TriggerOpen), Inl (Failed TriggerData)} \<and> log w' = log w @ pre @ [ERemove (path @ ''.tmp'')]"
    and "\<not> fails e TriggerOpen \<Longrightarrow> \<not> fails e TriggerData \<Longrightarrow> fails e TmpRename \<Longrightarrow>
           r = Inl (Failed TmpRename)
           \<and> log w' = log w @ pre @ [EWriteFile (reloadTriggerFile cfg) [], ERemove (path @ ''.tmp'')]
           \<and> (reloadTriggerFile cfg \<noteq> path @ ''.tmp'' \<longrightarrow> files w' (reloadTriggerFile cfg) = Some [])"
    and "\<not> fails e TriggerOpen \<Longrightarrow> \<not> fails e TriggerData \<Longrightarrow> \<not> fails e TmpRename \<Longrightarrow>
           r = Inr ()
           \<and> log w' = log w @ pre @ [EWriteFile (reloadTriggerFile cfg) [], ERename (path @ ''.tmp'') path]
           \<and> (reloadTriggerFile cfg \<noteq> path @ ''.tmp'' \<longrightarrow> Stat_ok (reloadTriggerFile cfg) w')"
  using assms
  by (auto simp: run_defs io_defs scan_rows_query render_def Let_def split: if_splits)

lemma calcMd5File_ok:
  "calcMd5File e sOpen sRead name w = (Inr h, w') \<Longrightarrow> \<exists>data. files w name = Some data \<and> h = md5hex e data"
  by (auto simp: calcMd5File_def Clean_def Let_def split: if_splits option.splits)

lemma copyFile_other:
  "copyFile e src dst w = (r, w') \<Longrightarrow> n \<noteq> dst \<Longrightarrow> files w' n = files w n"
  by (auto simp: copyFile_def put_def did_def Let_def Clean_def split: if_splits option.splits)

lemma publish_ok:
  "publish e cfg tmp path w = (Inr (), w') \<Longrightarrow> reloadTriggerFile cfg \<noteq> tmp \<Longrightarrow>
   files w tmp = Some data \<Longrightarrow> files w' path = Some data"
  by (auto simp: publish_def writeTriggerFile_def WriteFile_def Rename_def put_def did_def
           split: if_splits option.splits)

lemma compare_and_publish_ok:
  assumes run: "compare_and_publish e cfg tmp path w = (Inr (), w')"
    and sep: "reloadTriggerFile cfg \<noteq> tmp" "backup_path path (now e) \<noteq> tmp"
    and data: "files w tmp = Some data"
  shows "\<exists>old. files w' path = Some old \<and> md5hex e old = md5hex e data"
proof (cases "Stat_ok path w")
  case False
  with run have "publish e cfg tmp path w = (Inr (), w')" by (simp add: compare_and_publish_def)
  from publish_ok [OF this sep(1) data] show ?thesis by simp
next
  case True
  obtain r1 w1 where c1: "calcMd5File e CurOpen CurRead tmp w = (r1, w1)" by fastforce
  obtain r2 w2 where c2: "calcMd5File e OldOpen OldRead path w1 = (r2, w2)" by fastforce
  obtain r3 w3 where c3: "copyFile e path (backup_path path (now e)) w2 = (r3, w3)" by fastforce
  from run True c1 obtain h1 where r1: "r1 = Inr h1"
    by (auto simp: compare_and_publish_def split: sum.splits)
  from run True c1 c2 r1 obtain h2 where r2: "r2 = Inr h2"
    by (auto simp: compare_and_publish_def split: sum.splits)
  have f1: "files w1 = files w" using calcMd5File_files [OF c1] .
  have f2: "files w2 = files w" using calcMd5File_files [OF c2] f1 by simp
  have h1: "h1 = md5hex e data" using calcMd5File_ok [of e CurOpen CurRead tmp w h1 w1] c1 r1 data by simp
  obtain old where old: "files w path = Some old" "h2 = md5hex e old"
    using calcMd5File_ok [of e OldOpen OldRead path w1 h2 w2] c2 r2 f1 by auto
  show ?thesis
  proof (cases "h1 = h2")
    case True
    with run \<open>Stat_ok path w\<close> c1 c2 r1 r2 have "w' = w2" by (simp add: compare_and_publish_def)
    with f2 old h1 True show ?thesis by simp
  next
    case False
    with run \<open>Stat_ok path w\<close> c1 c2 c3 r1 r2 have p: "publish e cfg tmp path w3 = (Inr (), w')"
      by (auto simp: compare_and_publish_def split: sum.splits)
    have "files w3 tmp = Some data"
      using copyFile_other [OF c3, of tmp] sep(2) f2 data by simp
    from publish_ok [OF p sep(1) this] show ?thesis by simp
  qed
qed

lemma backup_path_not_tmp: "backup_path path t \<noteq> path @ ''.tmp''"
  by (simp add: backup_path_def)

lemma success_live:
  assumes run: "generateUserList e cfg db path exclude w = (Inr (), w')"
    and sep: "reloadTriggerFile cfg \<noteq> path @ ''.tmp''"
  shows "\<exists>old. files w' path = Some old \<and> md5hex e old = md5hex e (render (credentials db exclude))"
    and "files w' (path @ ''.tmp'') = None"
    and "\<not> fails e BeginTx \<and> \<not> fails e QueryContext \<and> \<not> fails e RowsErr \<and> \<not> fails e TmpOpen \<and> \<not> fails e TmpData"
proof -
  let ?tmp = "path @ ''.tmp''" and ?data = "render (credentials db exclude)"
  from run show ok: "\<not> fails e BeginTx \<and> \<not> fails e QueryContext \<and> \<not> fails e RowsErr \<and> \<not> fails e TmpOpen \<and> \<not> fails e TmpData"
    by (auto simp: generateUserList_def WriteFile_def scan_rows_query Let_def split: if_splits)
  then show "files w' ?tmp = None"
    using tmp_removed [of e cfg db path exclude w] run by simp
  let ?w1 = "did (EWriteFile ?tmp ?data) (put ?tmp ?data w)"
  obtain w2 where c: "compare_and_publish e cfg ?tmp path ?w1 = (Inr (), w2)" and w': "w' = snd (Remove ?tmp w2)"
    using run ok
    by (auto simp: generateUserList_def WriteFile_def scan_rows_query render_def Let_def split: prod.splits)
  have "files ?w1 ?tmp = Some ?data" by (simp add: put_def did_def)
  from compare_and_publish_ok [OF c sep backup_path_not_tmp this]
  obtain old where "files w2 path = Some old" "md5hex e old = md5hex e ?data" by blast
  then show "\<exists>old. files w' path = Some old \<and> md5hex e old = md5hex e ?data"
    using w' by (auto simp: Remove_def did_def split: option.splits)
qed

lemma second_run:
  assumes run: "generateUserList e cfg db path exclude w = (Inr (), w1)"
    and sep: "reloadTriggerFile cfg \<noteq> path @ ''.tmp''"
    and db: "\<not> fails e2 BeginTx" "\<not> fails e2 QueryContext" "\<not> fails e2 RowsErr"
    and tmp: "\<not> fails e2 TmpOpen" "\<not> fails e2 TmpData"
    and md5: "\<not> fails e2 CurOpen" "\<not> fails e2 CurRead" "\<not> fails e2 OldOpen" "\<not> fails e2 OldRead"
    and same: "md5hex e2 = md5hex e"
  shows "generateUserList e2 cfg db path exclude w1 =
           (Inr (), w1\<lparr>log := log w1 @ [EWriteFile (path @ ''.tmp'') (render (credentials db exclude)),
                                        EMd5 (path @ ''.tmp''), EMd5 path, ERemove (path @ ''.tmp'')]\<rparr>)"
proof -
  from success_live(1,2) [OF run sep] obtain old where
    old: "files w1 path = Some old" "md5hex e old = md5hex e (render (credentials db exclude))"
    and gone: "files w1 (path @ ''.tmp'') = None" by blast
  have "md5hex e2 (render (credentials db exclude)) = md5hex e2 old"
    using old(2) same by simp
  from unchanged_run [OF db tmp md5 old(1) this, of cfg]
  have "generateUserList e2 cfg db path exclude w1 =
           (Inr (), w1\<lparr>files := (files w1)(path @ ''.tmp'' := None),
                      log := log w1 @ [EWriteFile (path @ ''.tmp'') (render (credentials db exclude)),
                                      EMd5 (path @ ''.tmp''), EMd5 path, ERemove (path @ ''.tmp'')]\<rparr>)" .
  moreover have "(files w1)(path @ ''.tmp'' := None) = files w1"
    using gone by (simp add: fun_upd_idem)
  ultimately show ?thesis by simp
qed

lemma main_reload:
  assumes gen: "generateUserList e cfg db (filePath cfg) (Split (excludeAccounts cfg) CHR '','') w = (Inr (), w1)"
    and "\<not> fails e SqlOpen" and marker: "Stat_ok (reloadTriggerFile cfg) w1"
  shows "log (snd (main e cfg db w)) = log w1 @ [EReload (reloadCommand cfg)]"
  using assms
  by (simp add: main_def checkTriggerFileExists_def runReloadCommand_def did_def split: prod.splits)

subsection \<open>The concrete inputs\<close>

lemma credentials_alice_bob: "credentials alice_bob_db exclude = [(''alice'', ''pw1''), (''bob'', ''pw2'')]"
  by (simp add: credentials_def query_def joined_def left_join_def where_clause_def pg_roles_def alice_bob_db_def)

lemma render_alice_bob: "render (credentials alice_bob_db exclude) = alice_bob_text"
  by (simp add: credentials_alice_bob render_def render_lines_def lines_of_def Sprintf_line_def alice_bob_text_def dq_def)

lemma alice_bob_text_neq: "alice_bob_text \<noteq> ''old''" "alice_bob_text \<noteq> []"
  by (simp_all add: alice_bob_text_def)

lemmas example_defs = plain_env_def only_def no_site_def fresh_world_def live_world_def marked_world_def
  default_config_def

lemma showInt_example: "showInt 1730000000 = ''1730000000''"
  by (simp add: showInt_def showNat.simps digit_def)

lemma Split_example: "Split ''postgres,replicator,monitor'' CHR '','' = [''postgres'', ''replicator'', ''monitor'']"
  by simp

subsection \<open>What a run writes\<close>

lemma scan_rows_all:
  "scan_rows (map (\<lambda>(username, password). (username, Some password)) rows) acc = Inr (acc @ lines_of rows)"
  by (induction rows arbitrary: acc) (auto simp: lines_of_def)

lemma generateUserList_writes:
  assumes "\<not> fails e BeginTx" "\<not> fails e QueryContext" "\<not> fails e RowsErr"
    and "\<not> fails e TmpOpen" "\<not> fails e TmpData"
  shows "generateUserList e cfg db path exclude w =
           (case compare_and_publish e cfg (path @ ''.tmp'') path
                   (did (EWriteFile (path @ ''.tmp'') (render (credentials db exclude)))
                        (put (path @ ''.tmp'') (render (credentials db exclude)) w)) of
              (r, w2) \<Rightarrow> (r, snd (Remove (path @ ''.tmp'') w2)))"
  using assms
  by (simp add: generateUserList_def WriteFile_def scan_rows_query render_def Let_def)

text \<open>
  C5. The artifact written for a credential set has one line per record, of the form
  \<^verbatim>\<open>"username" "password"\<close>; the lines are in ascending bytewise order of their whole text
  and each is followed by a newline; the artifact ends with one newline only (what stands
  before it, if anything, is not a newline); the empty set renders to a single newline.
  The order is that of the lines, not of the user names: the name \<^verbatim>\<open>a\<close> is below \<^verbatim>\<open>a!\<close>, and
  its line is above, since the closing quote is above the exclamation mark.

  This is the text the program writes: the loop over the rows collects exactly the lines
  of the records, in particular those of the rows the query returns;
  \<^verbatim>\<open>generateUserList\<close> writes their rendering to the temporary file before it compares
  anything, and on a first run that is what the live path holds at the end.
\<close>

theorem render_sorted_lines:
  "(let ls = sort (lines_of rows) in
      length ls = length rows
    \<and> mset ls = mset (map (\<lambda>(username, password). [dq] @ username @ [dq, CHR '' '', dq] @ password @ [dq]) rows)
    \<and> sorted ls
    \<and> render rows = (if rows = [] then [nl] else concat (map (\<lambda>l. l @ [nl]) ls))
    \<and> (\<exists>body. render rows = body @ [nl] \<and> (body = [] \<or> last body \<noteq> nl)))
   \<and> render [] = [nl]
   \<and> scan_rows (map (\<lambda>(username, password). (username, Some password)) rows) [] = Inr (lines_of rows)
   \<and> scan_rows (query db exclude) [] = Inr (lines_of (credentials db exclude))
   \<and> (\<not> fails e BeginTx \<and> \<not> fails e QueryContext \<and> \<not> fails e RowsErr
        \<and> \<not> fails e TmpOpen \<and> \<not> fails e TmpData \<longrightarrow>
        generateUserList e cfg db path exclude w =
          (case compare_and_publish e cfg (path @ ''.tmp'') path
                  (did (EWriteFile (path @ ''.tmp'') (render (credentials db exclude)))
                       (put (path @ ''.tmp'') (render (credentials db exclude)) w)) of
             (r, w2) \<Rightarrow> (r, snd (Remove (path @ ''.tmp'') w2))))
   \<and> (\<not> fails e BeginTx \<and> \<not> fails e QueryContext \<and> \<not> fails e RowsErr
        \<and> \<not> fails e TmpOpen \<and> \<not> fails e TmpData
        \<and> files w path = None
        \<and> \<not> fails e TriggerOpen \<and> \<not> fails e TriggerData \<and> \<not> fails e TmpRename
        \<and> reloadTriggerFile cfg \<noteq> path @ ''.tmp'' \<longrightarrow>
        files (snd (generateUserList e cfg db path exclude w)) path = Some (render (credentials db exclude)))"
proof -
  have "lines_of rows = map (\<lambda>(username, password). [dq] @ username @ [dq, CHR '' '', dq] @ password @ [dq]) rows"
    by (simp add: lines_of_def Sprintf_line_def)
  then have "mset (sort (lines_of rows)) = mset (map (\<lambda>(username, password). [dq] @ username @ [dq, CHR '' '', dq] @ password @ [dq]) rows)"
    by simp
  moreover have "length (sort (lines_of rows)) = length rows"
    by (simp add: lines_of_def)
  moreover have "render [] = [nl]" using render_concat [of "[]"] by simp
  ultimately have shape: "(let ls = sort (lines_of rows) in
      length ls = length rows
    \<and> mset ls = mset (map (\<lambda>(username, password). [dq] @ username @ [dq, CHR '' '', dq] @ password @ [dq]) rows)
    \<and> sorted ls
    \<and> render rows = (if rows = [] then [nl] else concat (map (\<lambda>l. l @ [nl]) ls))
    \<and> (\<exists>body. render rows = body @ [nl] \<and> (body = [] \<or> last body \<noteq> nl)))
   \<and> render [] = [nl]"
    using render_concat [of rows] render_body [of rows] by (simp add: Let_def)
  have loop: "scan_rows (map (\<lambda>(username, password). (username, Some password)) rows) [] = Inr (lines_of rows)"
    using scan_rows_all [of rows "[]"] by simp
  have written: "\<not> fails e BeginTx \<and> \<not> fails e QueryContext \<and> \<not> fails e RowsErr
        \<and> \<not> fails e TmpOpen \<and> \<not> fails e TmpData \<longrightarrow>
        generateUserList e cfg db path exclude w =
          (case compare_and_publish e cfg (path @ ''.tmp'') path
                  (did (EWriteFile (path @ ''.tmp'') (render (credentials db exclude)))
                       (put (path @ ''.tmp'') (render (credentials db exclude)) w)) of
             (r, w2) \<Rightarrow> (r, snd (Remove (path @ ''.tmp'') w2)))"
    using generateUserList_writes [of e cfg db path exclude w] by blast
  have live: "\<not> fails e BeginTx \<and> \<not> fails e QueryContext \<and> \<not> fails e RowsErr
        \<and> \<not> fails e TmpOpen \<and> \<not> fails e TmpData
        \<and> files w path = None
        \<and> \<not> fails e TriggerOpen \<and> \<not> fails e TriggerData \<and> \<not> fails e TmpRename
        \<and> reloadTriggerFile cfg \<noteq> path @ ''.tmp'' \<longrightarrow>
        files (snd (generateUserList e cfg db path exclude w)) path = Some (render (credentials db exclude))"
    using first_run(3) [of e w path cfg db exclude] by blast
  show ?thesis
    by (intro conjI;
        (rule conjunct1 [OF shape] | rule conjunct2 [OF shape] | rule loop | rule scan_rows_query
         | rule written | rule live))
qed

theorem render_sorted_lines_witness:
  "render [(''bob'', ''pw2''), (''alice'', ''pw1'')] =
     [dq] @ ''alice'' @ [dq] @ '' '' @ [dq] @ ''pw1'' @ [dq, nl] @ [dq] @ ''bob'' @ [dq] @ '' '' @ [dq] @ ''pw2'' @ [dq, nl]
   \<and> sorted (sort (lines_of [(''bob'', ''pw2''), (''alice'', ''pw1'')]))
   \<and> render [(''a'', ''x''), (''a!'', ''x'')] =
     [dq] @ ''a!'' @ [dq] @ '' '' @ [dq] @ ''x'' @ [dq, nl] @ [dq] @ ''a'' @ [dq] @ '' '' @ [dq] @ ''x'' @ [dq, nl]
   \<and> scan_rows [(''bob'', Some ''pw2''), (''alice'', Some ''pw1'')] [] =
       Inr [[dq] @ ''bob'' @ [dq] @ '' '' @ [dq] @ ''pw2'' @ [dq], [dq] @ ''alice'' @ [dq] @ '' '' @ [dq] @ ''pw1'' @ [dq]]
   \<and> files (snd (generateUserList (plain_env no_site) default_config alice_bob_db
          (filePath default_config) [] fresh_world)) (filePath default_config) =
       Some ([dq] @ ''alice'' @ [dq] @ '' '' @ [dq] @ ''pw1'' @ [dq, nl] @ [dq] @ ''bob'' @ [dq] @ '' '' @ [dq] @ ''pw2'' @ [dq, nl])"
proof -
  let ?e = "plain_env no_site"
  have quiet: "\<not> fails ?e s" for s
    by (simp add: plain_env_def no_site_def)
  have shape: "render [(''bob'', ''pw2''), (''alice'', ''pw1'')] =
     [dq] @ ''alice'' @ [dq] @ '' '' @ [dq] @ ''pw1'' @ [dq, nl] @ [dq] @ ''bob'' @ [dq] @ '' '' @ [dq] @ ''pw2'' @ [dq, nl]
     \<and> sorted (sort (lines_of [(''bob'', ''pw2''), (''alice'', ''pw1'')]))
     \<and> scan_rows [(''bob'', Some ''pw2''), (''alice'', Some ''pw1'')] [] =
       Inr [[dq] @ ''bob'' @ [dq] @ '' '' @ [dq] @ ''pw2'' @ [dq], [dq] @ ''alice'' @ [dq] @ '' '' @ [dq] @ ''pw1'' @ [dq]]"
    using render_sorted_lines [of "[(''bob'', ''pw2''), (''alice'', ''pw1'')]"]
    by (simp add: Let_def lines_of_def Sprintf_line_def dq_def nl_def)
  have order: "render [(''a'', ''x''), (''a!'', ''x'')] =
     [dq] @ ''a!'' @ [dq] @ '' '' @ [dq] @ ''x'' @ [dq, nl] @ [dq] @ ''a'' @ [dq] @ '' '' @ [dq] @ ''x'' @ [dq, nl]"
    using render_sorted_lines [of "[(''a'', ''x''), (''a!'', ''x'')]"]
    by (simp add: Let_def lines_of_def Sprintf_line_def dq_def nl_def)
  have "files (snd (generateUserList ?e default_config alice_bob_db
          (filePath default_config) [] fresh_world)) (filePath default_config) =
       Some (render (credentials alice_bob_db []))"
    using render_sorted_lines [where e = ?e and cfg = default_config and db = alice_bob_db
         and path = "filePath default_config" and exclude = "[]" and w = fresh_world and rows = "[]"]
    by (simp add: quiet fresh_world_def default_config_def compare_and_publish_def publish_def io_defs)
  then have run: "files (snd (generateUserList ?e default_config alice_bob_db
          (filePath default_config) [] fresh_world)) (filePath default_config) =
       Some ([dq] @ ''alice'' @ [dq] @ '' '' @ [dq] @ ''pw1'' @ [dq, nl] @ [dq] @ ''bob'' @ [dq] @ '' '' @ [dq] @ ''pw2'' @ [dq, nl])"
    by (simp add: render_alice_bob alice_bob_text_def)
  from shape order run show ?thesis by simp
qed

subsection \<open>The claims about a run\<close>

text \<open>
  C1, as stated, fails. On a first run whose rename fails, the trigger file exists at the
  end although nothing was published: \<^verbatim>\<open>writeTriggerFile\<close> is called before \<^verbatim>\<open>os.Rename\<close>.
  On the run without failures the trigger is written before the rename as well.
\<close>

theorem rename_failure_leaves_marker:
  "fst (generateUserList (plain_env (only TmpRename)) default_config alice_bob_db
          (filePath default_config) [] fresh_world) = Inl (Failed TmpRename)
   \<and> files fresh_world (reloadTriggerFile default_config) = None
   \<and> files (snd (generateUserList (plain_env (only TmpRename)) default_config alice_bob_db
          (filePath default_config) [] fresh_world)) (reloadTriggerFile default_config) = Some []
   \<and> files (snd (generateUserList (plain_env (only TmpRename)) default_config alice_bob_db
          (filePath default_config) [] fresh_world)) (filePath default_config) = None
   \<and> log (snd (generateUserList (plain_env (only TmpRename)) default_config alice_bob_db
          (filePath default_config) [] fresh_world)) =
       [EWriteFile (filePath default_config @ ''.tmp'') alice_bob_text,
        EWriteFile (reloadTriggerFile default_config) [],
        ERemove (filePath default_config @ ''.tmp'')]
   \<and> log (snd (generateUserList (plain_env no_site) default_config alice_bob_db
          (filePath default_config) [] fresh_world)) =
       [EWriteFile (filePath default_config @ ''.tmp'') alice_bob_text,
        EWriteFile (reloadTriggerFile default_config) [],
        ERename (filePath default_config @ ''.tmp'') (filePath default_config)]"
  by (simp add: run_defs io_defs scan_rows_query render_alice_bob [unfolded render_def] example_defs Let_def)

text \<open>
  C1, amended. In every run that reaches the publish stage (the first run, or a changed
  content whose backup succeeded), the order of the effects is backup, then the reload
  marker, then the rename. A run whose marker cannot be created renames nothing; a run
  whose rename fails has created the marker already, and the marker stays; a run without
  failure ends with the rename, right after the marker.
\<close>

theorem marker_before_rename:
  assumes db: "\<not> fails e BeginTx" "\<not> fails e QueryContext" "\<not> fails e RowsErr"
    and tmp: "\<not> fails e TmpOpen" "\<not> fails e TmpData"
    and reach:
      "files w path = None \<and> pre = [EWriteFile (path @ ''.tmp'') (render (credentials db exclude))]
       \<or> (\<exists>old. files w path = Some old \<and> md5hex e (render (credentials db exclude)) \<noteq> md5hex e old)
          \<and> \<not> fails e CurOpen \<and> \<not> fails e CurRead \<and> \<not> fails e OldOpen \<and> \<not> fails e OldRead
          \<and> \<not> fails e SrcOpen \<and> \<not> fails e DstCreate \<and> \<not> fails e DstCopy \<and> \<not> fails e DstClose
          \<and> pre = [EWriteFile (path @ ''.tmp'') (render (credentials db exclude)),
                    EMd5 (path @ ''.tmp''), EMd5 path, ECopy path (backup_path path (now e))]"
    and run: "generateUserList e cfg db path exclude w = (r, w')"
  shows
    "(fails e TriggerOpen \<or> fails e TriggerData \<longrightarrow>
        r \<in> {Inl (Failed TriggerOpen), Inl (Failed TriggerData)}
        \<and> log w' = log w @ pre @ [ERemove (path @ ''.tmp'')])
     \<and> (\<not> fails e TriggerOpen \<and> \<not> fails e TriggerData \<and> fails e TmpRename \<longrightarrow>
        r = Inl (Failed TmpRename)
        \<and> log w' = log w @ pre @ [EWriteFile (reloadTriggerFile cfg) [], ERemove (path @ ''.tmp'')]
        \<and> (reloadTriggerFile cfg \<noteq> path @ ''.tmp'' \<longrightarrow> files w' (reloadTriggerFile cfg) = Some []))
     \<and> (\<not> fails e TriggerOpen \<and> \<not> fails e TriggerData \<and> \<not> fails e TmpRename \<longrightarrow>
        r = Inr ()
        \<and> log w' = log w @ pre @ [EWriteFile (reloadTriggerFile cfg) [], ERename (path @ ''.tmp'') path]
        \<and> (reloadTriggerFile cfg \<noteq> path @ ''.tmp'' \<longrightarrow> Stat_ok (reloadTriggerFile cfg) w'))"
  using publish_stage [OF db tmp reach run] by blast

theorem marker_before_rename_witness:
  "fst (generateUserList (plain_env (only TmpRename)) default_config alice_bob_db
          (filePath default_config) [] (live_world ''old'')) = Inl (Failed TmpRename)
   \<and> log (snd (generateUserList (plain_env (only TmpRename)) default_config alice_bob_db
          (filePath default_config) [] (live_world ''old''))) =
       [EWriteFile (filePath default_config @ ''.tmp'') alice_bob_text,
        EMd5 (filePath default_config @ ''.tmp''), EMd5 (filePath default_config),
        ECopy (filePath default_config) (filePath default_config @ ''.backup-1730000000''),
        EWriteFile (reloadTriggerFile default_config) [],
        ERemove (filePath default_config @ ''.tmp'')]
   \<and> files (snd (generateUserList (plain_env (only TmpRename)) default_config alice_bob_db
          (filePath default_config) [] (live_world ''old''))) (reloadTriggerFile default_config) = Some []"
  using marker_before_rename
    [where e = "plain_env (only TmpRename)" and cfg = default_config and db = alice_bob_db
       and path = "filePath default_config" and exclude = "[]" and w = "live_world ''old''"
       and pre = "[EWriteFile (filePath default_config @ ''.tmp'') alice_bob_text,
        EMd5 (filePath default_config @ ''.tmp''), EMd5 (filePath default_config),
        ECopy (filePath default_config) (filePath default_config @ ''.backup-1730000000'')]"
       and r = "fst (generateUserList (plain_env (only TmpRename)) default_config alice_bob_db
          (filePath default_config) [] (live_world ''old''))"
       and w' = "snd (generateUserList (plain_env (only TmpRename)) default_config alice_bob_db
          (filePath default_config) [] (live_world ''old''))"]
  by (simp add: example_defs render_alice_bob alice_bob_text_neq backup_path_def showInt_example)

text \<open>
  C3. When the content changed and a live artifact exists, the live artifact is copied to
  \<^verbatim>\<open><live-path>.backup-<unix-seconds>\<close>, the seconds in decimal, before anything else
  is done to the live path. When a step of the copy fails, the run returns its error, the
  live artifact is what it was, the trigger file is not touched and nothing is renamed.
\<close>

theorem backup_before_publish:
  assumes db: "\<not> fails e BeginTx" "\<not> fails e QueryContext" "\<not> fails e RowsErr"
    and tmp: "\<not> fails e TmpOpen" "\<not> fails e TmpData"
    and md5: "\<not> fails e CurOpen" "\<not> fails e CurRead" "\<not> fails e OldOpen" "\<not> fails e OldRead"
    and live: "files w path = Some old"
    and diff: "md5hex e (render (credentials db exclude)) \<noteq> md5hex e old"
    and run: "generateUserList e cfg db path exclude w = (r, w')"
  shows
    "(fails e SrcOpen \<or> fails e DstCreate \<or> fails e DstCopy \<or> fails e DstClose \<longrightarrow>
        r \<in> {Inl (Failed SrcOpen), Inl (Failed DstCreate), Inl (Failed DstCopy), Inl (Failed DstClose)}
        \<and> files w' path = Some old
        \<and> (\<forall>n. n \<noteq> path @ ''.tmp'' \<and> n \<noteq> backup_path path (now e) \<longrightarrow> files w' n = files w n)
        \<and> log w' = log w @ [EWriteFile (path @ ''.tmp'') (render (credentials db exclude)),
                             EMd5 (path @ ''.tmp''), EMd5 path, ERemove (path @ ''.tmp'')])
     \<and> (\<not> fails e SrcOpen \<and> \<not> fails e DstCreate \<and> \<not> fails e DstCopy \<and> \<not> fails e DstClose \<longrightarrow>
        (\<exists>evs. log w' = log w @ [EWriteFile (path @ ''.tmp'') (render (credentials db exclude)),
                                  EMd5 (path @ ''.tmp''), EMd5 path,
                                  ECopy path (path @ ''.backup-'' @ showInt (now e))] @ evs)
        \<and> (reloadTriggerFile cfg \<noteq> path @ ''.backup-'' @ showInt (now e) \<longrightarrow>
             files w' (path @ ''.backup-'' @ showInt (now e)) = Some old))"
proof (intro conjI impI)
  assume copy: "fails e SrcOpen \<or> fails e DstCreate \<or> fails e DstCopy \<or> fails e DstClose"
  note f = changed_backup_fails [OF db tmp md5 live diff copy run]
  show "r \<in> {Inl (Failed SrcOpen), Inl (Failed DstCreate), Inl (Failed DstCopy), Inl (Failed DstClose)}"
    by (rule f(1))
  show "files w' path = Some old" by (rule f(2))
  show "\<forall>n. n \<noteq> path @ ''.tmp'' \<and> n \<noteq> backup_path path (now e) \<longrightarrow> files w' n = files w n"
    by (rule f(4))
  show "log w' = log w @ [EWriteFile (path @ ''.tmp'') (render (credentials db exclude)),
                             EMd5 (path @ ''.tmp''), EMd5 path, ERemove (path @ ''.tmp'')]"
    by (rule f(5))
next
  assume "\<not> fails e SrcOpen \<and> \<not> fails e DstCreate \<and> \<not> fails e DstCopy \<and> \<not> fails e DstClose"
  then have copy: "\<not> fails e SrcOpen" "\<not> fails e DstCreate" "\<not> fails e DstCopy" "\<not> fails e DstClose"
    by simp_all
  note s = changed_backup_ok [OF db tmp md5 live diff copy run]
  show "\<exists>evs. log w' = log w @ [EWriteFile (path @ ''.tmp'') (render (credentials db exclude)),
                                  EMd5 (path @ ''.tmp''), EMd5 path,
                                  ECopy path (path @ ''.backup-'' @ showInt (now e))] @ evs"
    by (rule s(1))
  assume "reloadTriggerFile cfg \<noteq> path @ ''.backup-'' @ showInt (now e)"
  then show "files w' (path @ ''.backup-'' @ showInt (now e)) = Some old"
    by (rule s(2))
qed

theorem backup_before_publish_witness:
  "fst (generateUserList (plain_env (only DstCopy)) default_config alice_bob_db
          (filePath default_config) [] (live_world ''old'')) = Inl (Failed DstCopy)
   \<and> files (snd (generateUserList (plain_env (only DstCopy)) default_config alice_bob_db
          (filePath default_config) [] (live_world ''old''))) (filePath default_config) = Some ''old''
   \<and> files (snd (generateUserList (plain_env no_site) default_config alice_bob_db
          (filePath default_config) [] (live_world ''old'')))
        ''/etc/pgbouncer/userlist.txt.backup-1730000000'' = Some ''old''"
proof -
  let ?bad = "generateUserList (plain_env (only DstCopy)) default_config alice_bob_db
          (filePath default_config) [] (live_world ''old'')"
  let ?good = "generateUserList (plain_env no_site) default_config alice_bob_db
          (filePath default_config) [] (live_world ''old'')"
  have live: "files (live_world ''old'') (filePath default_config) = Some ''old''"
    by (simp add: live_world_def)
  have diff: "md5hex (plain_env f) (render (credentials alice_bob_db [])) \<noteq> md5hex (plain_env f) ''old''" for f
    by (simp add: plain_env_def render_alice_bob alice_bob_text_neq)
  have bad: "?bad = (fst ?bad, snd ?bad)" and good: "?good = (fst ?good, snd ?good)"
    by simp_all
  have "fst ?bad = Inl (Failed DstCopy)"
    by (simp add: run_defs io_defs scan_rows_query render_alice_bob [unfolded render_def]
          alice_bob_text_neq example_defs Let_def)
  moreover have "files (snd ?bad) (filePath default_config) = Some ''old''"
    using backup_before_publish [OF _ _ _ _ _ _ _ _ _ live diff bad]
    by (simp add: plain_env_def only_def)
  moreover have "files (snd ?good) ''/etc/pgbouncer/userlist.txt.backup-1730000000'' = Some ''old''"
    using backup_before_publish [OF _ _ _ _ _ _ _ _ _ live diff good]
    by (simp add: plain_env_def no_site_def default_config_def showInt_example)
  ultimately show ?thesis by simp
qed

text \<open>
  C6. Once the temporary file has been written, every return of the run, with whatever
  error (a fingerprint that cannot be computed, a backup that fails, a trigger or a
  rename that fails), leaves no temporary file behind.
\<close>

theorem temporary_file_removed:
  assumes db: "\<not> fails e BeginTx" "\<not> fails e QueryContext" "\<not> fails e RowsErr"
    and tmp: "\<not> fails e TmpOpen" "\<not> fails e TmpData"
    and run: "generateUserList e cfg db path exclude w = (r, w')"
  shows "files w' (path @ ''.tmp'') = None"
  using tmp_removed [OF db tmp, of cfg db path exclude w] run by simp

theorem temporary_file_removed_witness:
  "fst (generateUserList (plain_env (only OldRead)) default_config alice_bob_db
          (filePath default_config) [] (live_world ''old'')) = Inl (Failed OldRead)
   \<and> files (snd (generateUserList (plain_env (only OldRead)) default_config alice_bob_db
          (filePath default_config) [] (live_world ''old''))) (filePath default_config @ ''.tmp'') = None
   \<and> fst (generateUserList (plain_env (only DstCreate)) default_config alice_bob_db
          (filePath default_config) [] (live_world ''old'')) = Inl (Failed DstCreate)
   \<and> files (snd (generateUserList (plain_env (only DstCreate)) default_config alice_bob_db
          (filePath default_config) [] (live_world ''old''))) (filePath default_config @ ''.tmp'') = None"
proof -
  let ?hash = "generateUserList (plain_env (only OldRead)) default_config alice_bob_db
          (filePath default_config) [] (live_world ''old'')"
  let ?copy = "generateUserList (plain_env (only DstCreate)) default_config alice_bob_db
          (filePath default_config) [] (live_world ''old'')"
  have "fst ?hash = Inl (Failed OldRead)" and "fst ?copy = Inl (Failed DstCreate)"
    by (simp_all add: run_defs io_defs scan_rows_query render_alice_bob [unfolded render_def]
          alice_bob_text_neq example_defs Let_def)
  moreover have hash: "?hash = (fst ?hash, snd ?hash)" and copy: "?copy = (fst ?copy, snd ?copy)"
    by simp_all
  have "files (snd ?hash) (filePath default_config @ ''.tmp'') = None"
    using temporary_file_removed [OF _ _ _ _ _ hash] by (simp add: plain_env_def only_def)
  moreover have "files (snd ?copy) (filePath default_config @ ''.tmp'') = None"
    using temporary_file_removed [OF _ _ _ _ _ copy] by (simp add: plain_env_def only_def)
  ultimately show ?thesis by simp
qed

text \<open>
  C4. When the digest of the rendered content equals the digest of the live artifact, the
  run returns no error and changes nothing but the temporary file, which it removes: the
  live artifact is not replaced, no backup appears and no trigger file is created. So a
  run that follows a successful run on the same catalogue publishes nothing, creates no
  backup and leaves every file as it was.
\<close>

theorem unchanged_no_side_effects:
  "(\<not> fails e BeginTx \<and> \<not> fails e QueryContext \<and> \<not> fails e RowsErr
      \<and> \<not> fails e TmpOpen \<and> \<not> fails e TmpData
      \<and> \<not> fails e CurOpen \<and> \<not> fails e CurRead \<and> \<not> fails e OldOpen \<and> \<not> fails e OldRead
      \<and> files w path = Some old
      \<and> md5hex e (render (credentials db exclude)) = md5hex e old
      \<and> generateUserList e cfg db path exclude w = (r, w') \<longrightarrow>
        r = Inr ()
        \<and> files w' = (files w)(path @ ''.tmp'' := None)
        \<and> files w' path = Some old
        \<and> (\<forall>t. files w' (backup_path path t) = files w (backup_path path t))
        \<and> (\<not> Stat_ok (reloadTriggerFile cfg) w \<longrightarrow> \<not> Stat_ok (reloadTriggerFile cfg) w')
        \<and> log w' = log w @ [EWriteFile (path @ ''.tmp'') (render (credentials db exclude)),
                             EMd5 (path @ ''.tmp''), EMd5 path, ERemove (path @ ''.tmp'')])
   \<and> (generateUserList e1 cfg db path exclude w0 = (Inr (), w1)
      \<and> reloadTriggerFile cfg \<noteq> path @ ''.tmp''
      \<and> \<not> fails e2 BeginTx \<and> \<not> fails e2 QueryContext \<and> \<not> fails e2 RowsErr
      \<and> \<not> fails e2 TmpOpen \<and> \<not> fails e2 TmpData
      \<and> \<not> fails e2 CurOpen \<and> \<not> fails e2 CurRead \<and> \<not> fails e2 OldOpen \<and> \<not> fails e2 OldRead
      \<and> md5hex e2 = md5hex e1
      \<and> generateUserList e2 cfg db path exclude w1 = (r2, w2) \<longrightarrow>
        r2 = Inr ()
        \<and> files w2 = files w1
        \<and> log w2 = log w1 @ [EWriteFile (path @ ''.tmp'') (render (credentials db exclude)),
                              EMd5 (path @ ''.tmp''), EMd5 path, ERemove (path @ ''.tmp'')])"
proof (intro conjI impI)
  assume h: "\<not> fails e BeginTx \<and> \<not> fails e QueryContext \<and> \<not> fails e RowsErr
      \<and> \<not> fails e TmpOpen \<and> \<not> fails e TmpData
      \<and> \<not> fails e CurOpen \<and> \<not> fails e CurRead \<and> \<not> fails e OldOpen \<and> \<not> fails e OldRead
      \<and> files w path = Some old
      \<and> md5hex e (render (credentials db exclude)) = md5hex e old
      \<and> generateUserList e cfg db path exclude w = (r, w')"
  then have eq: "(r, w') = (Inr (), w\<lparr>files := (files w)(path @ ''.tmp'' := None),
                      log := log w @ [EWriteFile (path @ ''.tmp'') (render (credentials db exclude)),
                                      EMd5 (path @ ''.tmp''), EMd5 path, ERemove (path @ ''.tmp'')]\<rparr>)"
    using unchanged_run [of e w path old db exclude cfg] by simp
  from eq show "r = Inr ()" by simp
  from eq show "files w' = (files w)(path @ ''.tmp'' := None)" by simp
  from eq h show "files w' path = Some old" by simp
  from eq show "\<forall>t. files w' (backup_path path t) = files w (backup_path path t)"
    by (simp add: backup_path_def)
  from eq show "log w' = log w @ [EWriteFile (path @ ''.tmp'') (render (credentials db exclude)),
                             EMd5 (path @ ''.tmp''), EMd5 path, ERemove (path @ ''.tmp'')]" by simp
  assume "\<not> Stat_ok (reloadTriggerFile cfg) w"
  with eq show "\<not> Stat_ok (reloadTriggerFile cfg) w'" by (simp add: Stat_ok_def)
next
  assume h: "generateUserList e1 cfg db path exclude w0 = (Inr (), w1)
      \<and> reloadTriggerFile cfg \<noteq> path @ ''.tmp''
      \<and> \<not> fails e2 BeginTx \<and> \<not> fails e2 QueryContext \<and> \<not> fails e2 RowsErr
      \<and> \<not> fails e2 TmpOpen \<and> \<not> fails e2 TmpData
      \<and> \<not> fails e2 CurOpen \<and> \<not> fails e2 CurRead \<and> \<not> fails e2 OldOpen \<and> \<not> fails e2 OldRead
      \<and> md5hex e2 = md5hex e1
      \<and> generateUserList e2 cfg db path exclude w1 = (r2, w2)"
  then have eq: "(r2, w2) = (Inr (), w1\<lparr>log := log w1 @ [EWriteFile (path @ ''.tmp'') (render (credentials db exclude)),
                                        EMd5 (path @ ''.tmp''), EMd5 path, ERemove (path @ ''.tmp'')]\<rparr>)"
    using second_run [of e1 cfg db path exclude w0 w1 e2] by simp
  from eq show "r2 = Inr ()" by simp
  from eq show "files w2 = files w1" by simp
  from eq show "log w2 = log w1 @ [EWriteFile (path @ ''.tmp'') (render (credentials db exclude)),
                              EMd5 (path @ ''.tmp''), EMd5 path, ERemove (path @ ''.tmp'')]" by simp
qed

theorem unchanged_no_side_effects_witness:
  "fst (generateUserList (plain_env no_site) default_config alice_bob_db
          (filePath default_config) [] (live_world alice_bob_text)) = Inr ()
   \<and> files (snd (generateUserList (plain_env no_site) default_config alice_bob_db
          (filePath default_config) [] (live_world alice_bob_text))) = files (live_world alice_bob_text)
   \<and> fst (generateUserList (plain_env no_site) default_config alice_bob_db
          (filePath default_config) [] fresh_world) = Inr ()
   \<and> fst (generateUserList (plain_env no_site) default_config alice_bob_db
          (filePath default_config) []
          (snd (generateUserList (plain_env no_site) default_config alice_bob_db
                  (filePath default_config) [] fresh_world))) = Inr ()
   \<and> files (snd (generateUserList (plain_env no_site) default_config alice_bob_db
          (filePath default_config) []
          (snd (generateUserList (plain_env no_site) default_config alice_bob_db
                  (filePath default_config) [] fresh_world)))) =
       files (snd (generateUserList (plain_env no_site) default_config alice_bob_db
                  (filePath default_config) [] fresh_world))"
proof -
  let ?e = "plain_env no_site" and ?path = "filePath default_config"
  let ?same = "generateUserList ?e default_config alice_bob_db ?path [] (live_world alice_bob_text)"
  let ?first = "generateUserList ?e default_config alice_bob_db ?path [] fresh_world"
  let ?second = "generateUserList ?e default_config alice_bob_db ?path [] (snd ?first)"
  have quiet: "\<not> fails ?e s" for s
    by (simp add: plain_env_def no_site_def)
  have p1: "\<not> fails ?e BeginTx \<and> \<not> fails ?e QueryContext \<and> \<not> fails ?e RowsErr
      \<and> \<not> fails ?e TmpOpen \<and> \<not> fails ?e TmpData
      \<and> \<not> fails ?e CurOpen \<and> \<not> fails ?e CurRead \<and> \<not> fails ?e OldOpen \<and> \<not> fails ?e OldRead
      \<and> files (live_world alice_bob_text) ?path = Some alice_bob_text
      \<and> md5hex ?e (render (credentials alice_bob_db [])) = md5hex ?e alice_bob_text
      \<and> ?same = (fst ?same, snd ?same)"
    by (simp add: quiet live_world_def render_alice_bob)
  have "fst ?first = Inr ()"
    by (simp add: run_defs io_defs scan_rows_query example_defs Let_def)
  then have first: "?first = (Inr (), snd ?first)"
    by (simp add: prod_eq_iff)
  have p2: "?first = (Inr (), snd ?first)
      \<and> reloadTriggerFile default_config \<noteq> ?path @ ''.tmp''
      \<and> \<not> fails ?e BeginTx \<and> \<not> fails ?e QueryContext \<and> \<not> fails ?e RowsErr
      \<and> \<not> fails ?e TmpOpen \<and> \<not> fails ?e TmpData
      \<and> \<not> fails ?e CurOpen \<and> \<not> fails ?e CurRead \<and> \<not> fails ?e OldOpen \<and> \<not> fails ?e OldRead
      \<and> md5hex ?e = md5hex ?e
      \<and> ?second = (fst ?second, snd ?second)"
    using first by (simp add: quiet default_config_def)
  have tmp: "files (live_world alice_bob_text) (?path @ ''.tmp'') = None"
    by (simp add: live_world_def default_config_def)
  from unchanged_no_side_effects [THEN conjunct1, THEN mp, OF p1]
  have "fst ?same = Inr ()" and "files (snd ?same) = files (live_world alice_bob_text)"
    using tmp by (simp_all add: fun_upd_idem)
  moreover from unchanged_no_side_effects [THEN conjunct2, THEN mp, OF p2]
  have "fst ?second = Inr ()" and "files (snd ?second) = files (snd ?first)"
    by simp_all
  ultimately show ?thesis
    using \<open>fst ?first = Inr ()\<close> by simp
qed

lemma first_run_any_digest:
  assumes "files w path = None"
  shows "generateUserList (e\<lparr>md5hex := h\<rparr>) cfg db path exclude w = generateUserList e cfg db path exclude w"
  using assms
  by (simp add: generateUserList_def compare_and_publish_def publish_def writeTriggerFile_def
        WriteFile_def Rename_def Stat_ok_def put_def did_def Let_def scan_rows_query)

text \<open>
  C7. When no live artifact exists, the run goes straight to publication: its result does
  not depend on the digest function, no digest is computed, and (the trigger and the
  rename not failing) the temporary file is renamed onto the live path, which then holds
  the rendered content.
\<close>

theorem first_run_publishes:
  assumes db: "\<not> fails e BeginTx" "\<not> fails e QueryContext" "\<not> fails e RowsErr"
    and tmp: "\<not> fails e TmpOpen" "\<not> fails e TmpData"
    and live: "files w path = None"
    and run: "generateUserList e cfg db path exclude w = (r, w')"
  shows
    "generateUserList (e\<lparr>md5hex := h\<rparr>) cfg db path exclude w = (r, w')
     \<and> (\<not> fails e TriggerOpen \<and> \<not> fails e TriggerData \<and> \<not> fails e TmpRename \<longrightarrow>
          r = Inr ()
          \<and> log w' = log w @ [EWriteFile (path @ ''.tmp'') (render (credentials db exclude)),
                               EWriteFile (reloadTriggerFile cfg) [],
                               ERename (path @ ''.tmp'') path]
          \<and> (reloadTriggerFile cfg \<noteq> path @ ''.tmp'' \<longrightarrow>
                files w' path = Some (render (credentials db exclude))))"
proof (intro conjI impI)
  show "generateUserList (e\<lparr>md5hex := h\<rparr>) cfg db path exclude w = (r, w')"
    using first_run_any_digest [OF live] run by simp
next
  assume "\<not> fails e TriggerOpen \<and> \<not> fails e TriggerData \<and> \<not> fails e TmpRename"
  then have pub: "\<not> fails e TriggerOpen" "\<not> fails e TriggerData" "\<not> fails e TmpRename"
    by simp_all
  note f = first_run [OF db tmp live pub, of cfg db exclude]
  from f(1) run show "r = Inr ()" by simp
  from f(2) run show "log w' = log w @ [EWriteFile (path @ ''.tmp'') (render (credentials db exclude)),
                               EWriteFile (reloadTriggerFile cfg) [],
                               ERename (path @ ''.tmp'') path]" by simp
  assume "reloadTriggerFile cfg \<noteq> path @ ''.tmp''"
  from f(3) [OF this] run show "files w' path = Some (render (credentials db exclude))" by simp
qed

theorem first_run_publishes_witness:
  "fst (generateUserList (plain_env no_site) default_config alice_bob_db
          (filePath default_config) [] fresh_world) = Inr ()
   \<and> files (snd (generateUserList (plain_env no_site) default_config alice_bob_db
          (filePath default_config) [] fresh_world)) (filePath default_config) = Some alice_bob_text
   \<and> log (snd (generateUserList (plain_env no_site) default_config alice_bob_db
          (filePath default_config) [] fresh_world)) =
       [EWriteFile (filePath default_config @ ''.tmp'') alice_bob_text,
        EWriteFile (reloadTriggerFile default_config) [],
        ERename (filePath default_config @ ''.tmp'') (filePath default_config)]"
proof -
  let ?run = "generateUserList (plain_env no_site) default_config alice_bob_db
          (filePath default_config) [] fresh_world"
  have run: "?run = (fst ?run, snd ?run)" by simp
  have live: "files fresh_world (filePath default_config) = None"
    by (simp add: fresh_world_def)
  show ?thesis
    using first_run_publishes [where h = "\<lambda>content. content", OF _ _ _ _ _ live run]
    by (simp add: plain_env_def no_site_def default_config_def render_alice_bob fresh_world_def)
qed

text \<open>
  C10. The program never deletes the trigger file: when it exists before a run it exists
  after \<^verbatim>\<open>generateUserList\<close>, whatever the run did, and when that call returned no error,
  also on the unchanged path, \<^verbatim>\<open>main\<close> finds it and runs the reload command. The one file
  the program removes or renames away is the temporary file \<^verbatim>\<open><path>.tmp\<close>; the trigger is
  taken to be another file, as it is with the default flags.
\<close>

theorem marker_never_deleted:
  assumes marker: "Stat_ok (reloadTriggerFile cfg) w"
    and sep: "reloadTriggerFile cfg \<noteq> filePath cfg @ ''.tmp''"
    and run: "generateUserList e cfg db (filePath cfg) (Split (excludeAccounts cfg) CHR '','') w = (r, w1)"
  shows
    "checkTriggerFileExists cfg w1
     \<and> (\<not> fails e SqlOpen \<and> r = Inr () \<longrightarrow>
          log (snd (main e cfg db w)) = log w1 @ [EReload (reloadCommand cfg)])"
proof -
  have kept: "Stat_ok (reloadTriggerFile cfg) w1"
    using marker_kept [OF marker sep, of e cfg db "Split (excludeAccounts cfg) CHR '',''"] run by simp
  then show ?thesis
    using main_reload [of e cfg db w w1] run by (simp add: checkTriggerFileExists_def)
qed

theorem marker_never_deleted_witness:
  "fst (generateUserList (plain_env no_site) default_config alice_bob_db (filePath default_config)
          (Split (excludeAccounts default_config) CHR '','') (marked_world alice_bob_text)) = Inr ()
   \<and> log (snd (main (plain_env no_site) default_config alice_bob_db (marked_world alice_bob_text))) =
       [EWriteFile (filePath default_config @ ''.tmp'') alice_bob_text,
        EMd5 (filePath default_config @ ''.tmp''), EMd5 (filePath default_config),
        ERemove (filePath default_config @ ''.tmp''),
        EReload ''systemctl reload pgbouncer'']"
proof -
  let ?run = "generateUserList (plain_env no_site) default_config alice_bob_db (filePath default_config)
          (Split (excludeAccounts default_config) CHR '','') (marked_world alice_bob_text)"
  have marker: "Stat_ok (reloadTriggerFile default_config) (marked_world alice_bob_text)"
    by (simp add: Stat_ok_def marked_world_def)
  have sep: "reloadTriggerFile default_config \<noteq> filePath default_config @ ''.tmp''"
    by (simp add: default_config_def)
  have r: "fst ?run = Inr ()"
    and l: "log (snd ?run) = [EWriteFile (filePath default_config @ ''.tmp'') alice_bob_text,
        EMd5 (filePath default_config @ ''.tmp''), EMd5 (filePath default_config),
        ERemove (filePath default_config @ ''.tmp'')]"
    by (simp_all add: run_defs io_defs scan_rows_query render_alice_bob [unfolded render_def]
          example_defs Let_def)
  have run: "?run = (fst ?run, snd ?run)" by simp
  from marker_never_deleted [OF marker sep run] r l show ?thesis
    by (simp add: plain_env_def no_site_def default_config_def)
qed

end
